theory Spec2Isabelle
  imports Main "HOL-Library.AList" "HOL-Library.Sublist"
begin

section \<open>Rule strings: the normalizer of \<open>firewall_lib.py\<close>\<close>

text \<open>
  The module reports failures through \<open>module.fail_json\<close> (which terminates the
  process) or through an uncaught Python exception. Both are values here.
  \<open>MalformedRule\<close> is the \<open>fail_json\<close> of the parsers (``improper ... format''),
  \<open>UnknownZone\<close> the \<open>fail_json\<close> of the nominal-zone check, \<open>DaemonFault\<close> the
  \<open>fail_json\<close> issued by the exception handler installed on the firewalld client,
  \<open>NoBackend\<close> and \<open>NotRunning\<close> the two start-up failures. \<open>ValueError\<close> is the
  Python exception of a tuple unpacking with the wrong number of values, and
  \<open>ConnectionManagerFault\<close> an exception raised inside the NetworkManager helpers;
  neither is caught anywhere in \<open>main\<close>.
\<close>

datatype error =
    MalformedRule string
  | UnknownZone string
  | DaemonFault string
  | NoBackend
  | NotRunning
  | ValueError
  | ConnectionManagerFault

text \<open>Python's \<open>str.split(sep)\<close> for a one-character separator: never an empty list.\<close>

fun split_on :: "char \<Rightarrow> string \<Rightarrow> string list" where
  "split_on c [] = [[]]"
| "split_on c (x # xs) =
     (if x = c then [] # split_on c xs
      else (case split_on c xs of
              [] \<Rightarrow> [[x]]
            | y # ys \<Rightarrow> (x # y) # ys))"

text \<open>
  \<open>_protocol is None\<close>: the value tested is an element of the list returned by
  \<open>split\<close>, a \<open>str\<close>, and a \<open>str\<close> is never \<open>None\<close>.
\<close>

definition str_is_None :: "string \<Rightarrow> bool" where
  "str_is_None s = False"

text \<open>
  Lines 242--246 of \<open>main\<close>, one port string:
  \<open>_port, _protocol = port_proto.split("/")\<close> raises \<open>ValueError\<close> unless the
  split has exactly two fields.
\<close>

definition parse_port :: "string \<Rightarrow> error + (string \<times> string)" where
  "parse_port port_proto =
     (case split_on CHR ''/'' port_proto of
        [port, protocol] \<Rightarrow>
          (if str_is_None protocol then Inl (MalformedRule ''port'')
           else Inr (port, protocol))
      | _ \<Rightarrow> Inl ValueError)"

fun parse_ports :: "string list \<Rightarrow> error + (string \<times> string) list" where
  "parse_ports [] = Inr []"
| "parse_ports (x # xs) =
     (case parse_port x of
        Inl e \<Rightarrow> Inl e
      | Inr p \<Rightarrow> (case parse_ports xs of Inl e \<Rightarrow> Inl e | Inr ps \<Rightarrow> Inr (p # ps)))"

type_synonym forward = "string \<times> string \<times> string \<times> string option \<times> string option"

definition empty_to_None :: "string \<Rightarrow> string option" where
  "empty_to_None s = (if s = [] then None else Some s)"

text \<open>
  \<open>parse_forward_port(module, item, item_type=None)\<close>, lines 191--211. The first
  \<open>fail_json\<close> ends the process, so the code after it runs only on the two accepted
  field counts.
\<close>

definition forward_fields :: "string \<Rightarrow> string \<Rightarrow> string \<Rightarrow> string \<Rightarrow> error + forward" where
  "forward_fields interface port_field to_port to_addr =
     (case split_on CHR ''/'' port_field of
        [port, protocol] \<Rightarrow>
          (if str_is_None protocol then Inl (MalformedRule ''forward_port'')
           else Inr (interface, port, protocol, empty_to_None to_port, empty_to_None to_addr))
      | _ \<Rightarrow> Inl ValueError)"

definition parse_forward_port :: "string \<Rightarrow> string option \<Rightarrow> error + forward" where
  "parse_forward_port item item_type =
     (case split_on CHR '';'' item of
        [interface, port_field, to_port, to_addr] \<Rightarrow>
          forward_fields interface port_field to_port to_addr
      | [port_field, to_port, to_addr] \<Rightarrow>
          (if item_type = None then forward_fields [] port_field to_port to_addr
           else Inl (MalformedRule item))
      | _ \<Rightarrow> Inl (MalformedRule item))"

fun parse_forward_ports :: "string list \<Rightarrow> error + forward list" where
  "parse_forward_ports [] = Inr []"
| "parse_forward_ports (x # xs) =
     (case parse_forward_port x None of
        Inl e \<Rightarrow> Inl e
      | Inr p \<Rightarrow> (case parse_forward_ports xs of Inl e \<Rightarrow> Inl e | Inr ps \<Rightarrow> Inr (p # ps)))"

section \<open>The firewall daemon, the connection manager and the engine's memory\<close>

text \<open>
  Modelled from the spec: the firewalld client (\<open>firewall.client.FirewallClient\<close>) and
  the NetworkManager helpers (\<open>firewall.core.fw_nm\<close>) are libraries the module imports;
  their code is not part of the repository. Section 6 of the specification gives their
  contract: per-layer query, add and remove of services, ports, interface membership and
  forward ports; fetch and commit of a zone's permanent settings; zone enumeration for
  both layers; the default zone; live reassignment of an interface and lookup of the zone
  owning it; and the connection manager's three calls. A zone's rules are a set of
  \<open>rule\<close> values in each layer. In the runtime layer an interface belongs to at most one
  zone (section 4.4), so membership is a map from interface to zone. Runtime calls read
  the empty zone name as the default zone (the daemon's convention for its runtime
  interface); the permanent configuration looks a zone up by the name given. A call on a
  zone the layer does not have is a fault, delivered to the exception handler the module
  installs (line 262), which calls \<open>fail_json\<close>.
\<close>

datatype rule =
    Service string
  | Port string string
  | Interface string
  | ForwardPort string string "string option" "string option"

datatype nm_lookup = NmRaises | NmNone | NmConnection nat

datatype call =
    AddRule string rule
  | RemoveRule string rule
  | ChangeZoneOfInterface string string
  | GetSettings string
  | Update string "rule set"
  | NmSetZone string nat

text \<open>
  One record holds what a run of \<open>main\<close> can read or write: the import flags
  (\<open>HAS_FIREWALLD\<close>, \<open>HAS_FIREWALLD_NM\<close>), the connection manager, the daemon's two
  layers, the sequence of mutating or fetching calls the daemon has received (\<open>calls\<close>), and
  the process memory of the run: the settings objects (\<open>heap\<close>, by address), and the
  variables \<open>changed\<close> and \<open>changed_zones\<close> of \<open>main\<close>. \<open>changed_zones\<close> is a Python dict
  from zone name to a settings object; here an association list from zone name to the
  object's address, in insertion order.
\<close>

record state =
  has_firewalld :: bool
  has_firewalld_nm :: bool
  nm_imported :: bool
  nm_connection_of :: "string \<Rightarrow> nm_lookup"
  nm_set_raises :: "nat \<Rightarrow> bool"
  nm_zone :: "nat \<Rightarrow> string"
  connected :: bool
  default_zone :: string
  rt_zones :: "string \<rightharpoonup> rule set"
  rt_iface :: "string \<rightharpoonup> string"
  perm_zones :: "string \<rightharpoonup> rule set"
  calls :: "call list"
  heap :: "nat \<Rightarrow> rule set"
  next_addr :: nat
  changed :: bool
  changed_zones :: "(string \<times> nat) list"

text \<open>
  A step either goes on with a value, fails (\<open>fail_json\<close> or an uncaught exception), or
  ends the process through \<open>module.exit_json(changed=...)\<close>. The state reached so far is
  kept in all three cases: what the daemon was told before a failure stays told.
\<close>

datatype 'a res = Ok 'a | Fail error | Exit bool

type_synonym 'a m = "state \<Rightarrow> 'a res \<times> state"

definition ret :: "'a \<Rightarrow> 'a m" where
  "ret x s = (Ok x, s)"

definition bnd :: "'a m \<Rightarrow> ('a \<Rightarrow> 'b m) \<Rightarrow> 'b m" where
  "bnd f g s =
     (case f s of
        (Ok x, s') \<Rightarrow> g x s'
      | (Fail e, s') \<Rightarrow> (Fail e, s')
      | (Exit b, s') \<Rightarrow> (Exit b, s'))"

definition seq :: "unit m \<Rightarrow> 'b m \<Rightarrow> 'b m" where
  "seq f g = bnd f (\<lambda>_. g)"

definition whenM :: "bool \<Rightarrow> unit m \<Rightarrow> unit m" where
  "whenM c f = (if c then f else ret ())"

definition gets :: "(state \<Rightarrow> 'a) \<Rightarrow> 'a m" where
  "gets f s = (Ok (f s), s)"

definition fail_json :: "error \<Rightarrow> 'a m" where
  "fail_json e s = (Fail e, s)"

definition exit_json :: "bool \<Rightarrow> 'a m" where
  "exit_json b s = (Exit b, s)"

fun for_each :: "('a \<Rightarrow> unit m) \<Rightarrow> 'a list \<Rightarrow> unit m" where
  "for_each f [] = ret ()"
| "for_each f (x # xs) = seq (f x) (for_each f xs)"

subsection \<open>The runtime layer\<close>

definition rz :: "state \<Rightarrow> string \<Rightarrow> string" where
  "rz s z = (if z = [] then default_zone s else z)"

definition fw_query :: "string \<Rightarrow> rule \<Rightarrow> bool m" where
  "fw_query z r s =
     (case rt_zones s (rz s z) of
        None \<Rightarrow> (Fail (DaemonFault ''INVALID_ZONE''), s)
      | Some R \<Rightarrow>
          (Ok (case r of Interface i \<Rightarrow> rt_iface s i = Some (rz s z) | _ \<Rightarrow> r \<in> R), s))"

definition fw_add :: "string \<Rightarrow> rule \<Rightarrow> unit m" where
  "fw_add z r s =
     (case rt_zones s (rz s z) of
        None \<Rightarrow> (Fail (DaemonFault ''INVALID_ZONE''), s)
      | Some R \<Rightarrow>
          (Ok (), s\<lparr>rt_zones := (rt_zones s)(rz s z \<mapsto> insert r R),
                    calls := calls s @ [AddRule z r]\<rparr>))"

definition fw_remove :: "string \<Rightarrow> rule \<Rightarrow> unit m" where
  "fw_remove z r s =
     (case rt_zones s (rz s z) of
        None \<Rightarrow> (Fail (DaemonFault ''INVALID_ZONE''), s)
      | Some R \<Rightarrow>
          (case r of
             Interface i \<Rightarrow>
               (Ok (), s\<lparr>rt_iface := (if rt_iface s i = Some (rz s z)
                                        then (rt_iface s)(i := None) else rt_iface s),
                         calls := calls s @ [RemoveRule z r]\<rparr>)
           | _ \<Rightarrow>
               (Ok (), s\<lparr>rt_zones := (rt_zones s)(rz s z \<mapsto> R - {r}),
                         calls := calls s @ [RemoveRule z r]\<rparr>)))"

definition fw_changeZoneOfInterface :: "string \<Rightarrow> string \<Rightarrow> unit m" where
  "fw_changeZoneOfInterface z i s =
     (case rt_zones s (rz s z) of
        None \<Rightarrow> (Fail (DaemonFault ''INVALID_ZONE''), s)
      | Some R \<Rightarrow>
          (Ok (), s\<lparr>rt_iface := (rt_iface s)(i \<mapsto> rz s z),
                    calls := calls s @ [ChangeZoneOfInterface z i]\<rparr>))"

definition fw_getZoneOfInterface :: "string \<Rightarrow> string m" where
  "fw_getZoneOfInterface i s = (Ok (case rt_iface s i of None \<Rightarrow> [] | Some z \<Rightarrow> z), s)"

definition fw_getDefaultZone :: "string m" where
  "fw_getDefaultZone s = (Ok (default_zone s), s)"

subsection \<open>The permanent layer and the settings objects\<close>

text \<open>
  \<open>fw.config().getZoneByName(z)\<close> returns a handle on the permanent zone \<open>z\<close> (here its
  name) and faults when there is none. \<open>getSettings()\<close> builds a new settings object from
  the zone's stored settings; \<open>update(settings)\<close> stores the object's contents.
\<close>

definition config_getZoneByName :: "string \<Rightarrow> string m" where
  "config_getZoneByName z s =
     (case perm_zones s z of
        None \<Rightarrow> (Fail (DaemonFault ''INVALID_ZONE''), s)
      | Some P \<Rightarrow> (Ok z, s))"

definition zone_getSettings :: "string \<Rightarrow> nat m" where
  "zone_getSettings z s =
     (case perm_zones s z of
        None \<Rightarrow> (Fail (DaemonFault ''INVALID_ZONE''), s)
      | Some P \<Rightarrow>
          (Ok (next_addr s),
           s\<lparr>heap := (heap s)(next_addr s := P),
             next_addr := Suc (next_addr s),
             calls := calls s @ [GetSettings z]\<rparr>))"

definition zone_update :: "string \<Rightarrow> nat \<Rightarrow> unit m" where
  "zone_update z a s =
     (case perm_zones s z of
        None \<Rightarrow> (Fail (DaemonFault ''INVALID_ZONE''), s)
      | Some P \<Rightarrow>
          (Ok (), s\<lparr>perm_zones := (perm_zones s)(z \<mapsto> heap s a),
                    calls := calls s @ [Update z (heap s a)]\<rparr>))"

definition settings_query :: "nat \<Rightarrow> rule \<Rightarrow> bool m" where
  "settings_query a r s = (Ok (r \<in> heap s a), s)"

definition settings_add :: "nat \<Rightarrow> rule \<Rightarrow> unit m" where
  "settings_add a r s = (Ok (), s\<lparr>heap := (heap s)(a := insert r (heap s a))\<rparr>)"

definition settings_remove :: "nat \<Rightarrow> rule \<Rightarrow> unit m" where
  "settings_remove a r s = (Ok (), s\<lparr>heap := (heap s)(a := heap s a - {r})\<rparr>)"

section \<open>The interface fast path\<close>

text \<open>
  \<open>try_set_zone_of_interface(_zone, interface)\<close>, lines 126--139. The \<open>try\<close> covers the
  lookup only: \<open>nm_set_zone_of_connection\<close> stands in the \<open>else\<close> branch of the
  \<open>try\<close> statement, outside the handler.
\<close>

definition try_set_zone_of_interface :: "string \<Rightarrow> string \<Rightarrow> bool m" where
  "try_set_zone_of_interface zone interface s =
     (if \<not> has_firewalld_nm s then (Ok False, s)
      else if nm_imported s then
        (case nm_connection_of s interface of
           NmRaises \<Rightarrow> (Ok False, s)
         | NmNone \<Rightarrow> (Ok False, s)
         | NmConnection c \<Rightarrow>
             (if nm_set_raises s c then (Fail ConnectionManagerFault, s)
              else (Ok True, s\<lparr>nm_zone := (nm_zone s)(c := zone),
                                calls := calls s @ [NmSetZone zone c]\<rparr>)))
      else (Ok False, s))"

section \<open>The reconciliation engine: \<open>main\<close>\<close>

datatype intent = Enabled | Disabled

record params =
  p_service :: "string list"
  p_port :: "string list"
  p_trust :: "string list"
  p_masq :: "string list"
  p_forward_port :: "string list"
  p_zone :: "string option"
  p_state :: intent
  check_mode :: bool

definition mark_changed :: "unit m" where
  "mark_changed s = (Ok (), s\<lparr>changed := True\<rparr>)"

text \<open>\<open>changed_zones[zone] = fw_settings\<close>: the dict keeps a key's position.\<close>

definition register_zone :: "string \<Rightarrow> nat \<Rightarrow> unit m" where
  "register_zone z a s = (Ok (), s\<lparr>changed_zones := AList.update z a (changed_zones s)\<rparr>)"

text \<open>Lines 284--299, the body of the service loop. Line 295 does not set \<open>changed\<close>.\<close>

definition service_item :: "intent \<Rightarrow> string \<Rightarrow> nat \<Rightarrow> string \<Rightarrow> unit m" where
  "service_item desired_state zone fw_settings item =
     (case desired_state of
        Enabled \<Rightarrow>
          bnd (fw_query zone (Service item)) (\<lambda>in_runtime.
          seq (whenM (\<not> in_runtime)
                 (seq (fw_add zone (Service item)) mark_changed))
          (bnd (settings_query fw_settings (Service item)) (\<lambda>in_permanent.
           whenM (\<not> in_permanent)
             (seq (settings_add fw_settings (Service item))
             (seq mark_changed (register_zone zone fw_settings))))))
      | Disabled \<Rightarrow>
          bnd (fw_query zone (Service item)) (\<lambda>in_runtime.
          seq (whenM in_runtime
                 (fw_remove zone (Service item)))
          (bnd (settings_query fw_settings (Service item)) (\<lambda>in_permanent.
           whenM in_permanent
             (seq (settings_remove fw_settings (Service item))
             (seq mark_changed (register_zone zone fw_settings)))))))"

text \<open>Lines 302--318, the body of the port loop.\<close>

definition port_item :: "intent \<Rightarrow> string \<Rightarrow> nat \<Rightarrow> string \<times> string \<Rightarrow> unit m" where
  "port_item desired_state zone fw_settings pp =
     (case pp of (port, protocol) \<Rightarrow>
      (case desired_state of
        Enabled \<Rightarrow>
          bnd (fw_query zone (Port port protocol)) (\<lambda>in_runtime.
          seq (whenM (\<not> in_runtime)
                 (seq (fw_add zone (Port port protocol)) mark_changed))
          (bnd (settings_query fw_settings (Port port protocol)) (\<lambda>in_permanent.
           whenM (\<not> in_permanent)
             (seq (settings_add fw_settings (Port port protocol))
             (seq mark_changed (register_zone zone fw_settings))))))
      | Disabled \<Rightarrow>
          bnd (fw_query zone (Port port protocol)) (\<lambda>in_runtime.
          seq (whenM in_runtime
                 (seq (fw_remove zone (Port port protocol)) mark_changed))
          (bnd (settings_query fw_settings (Port port protocol)) (\<lambda>in_permanent.
           whenM in_permanent
             (seq (settings_remove fw_settings (Port port protocol))
             (seq mark_changed (register_zone zone fw_settings))))))))"

text \<open>
  Lines 324--328 (and 363--367, 406--410): the settings object of a zone other than the
  nominal one is the object registered in \<open>changed_zones\<close> if there is one, and a newly
  fetched object otherwise.
\<close>

definition zone_settings :: "string \<Rightarrow> nat m" where
  "zone_settings z =
     bnd (config_getZoneByName z) (\<lambda>fw_zone.
     bnd (gets changed_zones) (\<lambda>cz.
       (case map_of cz z of
          Some a \<Rightarrow> ret a
        | None \<Rightarrow> zone_getSettings fw_zone)))"

text \<open>
  Lines 334--357, the body of the trust loop; lines 373--396, the body of the masq loop,
  are the same text.
\<close>

definition interface_item :: "bool \<Rightarrow> intent \<Rightarrow> string \<Rightarrow> nat \<Rightarrow> string \<Rightarrow> unit m" where
  "interface_item check desired_state zone fw_settings item =
     (case desired_state of
        Enabled \<Rightarrow>
          bnd (try_set_zone_of_interface zone item) (\<lambda>reassigned.
          if reassigned then mark_changed
          else
            bnd (fw_query zone (Interface item)) (\<lambda>in_runtime.
            seq (whenM (\<not> in_runtime)
                   (seq (fw_changeZoneOfInterface zone item) mark_changed))
            (bnd (settings_query fw_settings (Interface item)) (\<lambda>in_permanent.
             whenM (\<not> in_permanent)
               (seq (settings_add fw_settings (Interface item))
               (seq mark_changed (register_zone zone fw_settings)))))))
      | Disabled \<Rightarrow>
          bnd (try_set_zone_of_interface [] item) (\<lambda>reassigned.
          if reassigned then whenM check (exit_json True)
          else
            bnd (fw_query zone (Interface item)) (\<lambda>in_runtime.
            seq (whenM in_runtime
                   (seq (fw_remove zone (Interface item)) mark_changed))
            (bnd (settings_query fw_settings (Interface item)) (\<lambda>in_permanent.
             whenM in_permanent
               (seq (settings_remove fw_settings (Interface item))
               (seq mark_changed (register_zone zone fw_settings))))))))"

text \<open>
  Lines 321--357 with \<open>fixed_zone = ''trusted''\<close> and lines 360--396 with
  \<open>fixed_zone = ''external''\<close>.
\<close>

definition interface_block ::
  "string \<Rightarrow> bool \<Rightarrow> intent \<Rightarrow> string \<Rightarrow> nat \<Rightarrow> string list \<Rightarrow> unit m" where
  "interface_block fixed_zone check desired_state zone fw_settings items =
     whenM (0 < length items)
       (bnd (if zone \<noteq> fixed_zone
             then bnd (zone_settings fixed_zone) (\<lambda>a. ret (fixed_zone, a))
             else ret (zone, fw_settings))
          (\<lambda>(zone', fw_settings').
             for_each (interface_item check desired_state zone' fw_settings') items))"

text \<open>Lines 400--442, the body of the forward-port loop.\<close>

definition forward_item :: "intent \<Rightarrow> string \<Rightarrow> nat \<Rightarrow> forward \<Rightarrow> unit m" where
  "forward_item desired_state zone fw_settings fp =
     (case fp of (interface, port, protocol, to_port, to_addr) \<Rightarrow>
      bnd (if interface \<noteq> [] then fw_getZoneOfInterface interface else ret zone) (\<lambda>zone'.
      bnd (if zone' \<noteq> [] \<and> zone' \<noteq> zone then zone_settings zone' else ret fw_settings)
        (\<lambda>fw_settings'.
      (case desired_state of
        Enabled \<Rightarrow>
          bnd (fw_query zone' (ForwardPort port protocol to_port to_addr)) (\<lambda>in_runtime.
          seq (whenM (\<not> in_runtime)
                 (seq (fw_add zone' (ForwardPort port protocol to_port to_addr)) mark_changed))
          (bnd (settings_query fw_settings' (ForwardPort port protocol to_port to_addr))
            (\<lambda>in_permanent.
           whenM (\<not> in_permanent)
             (seq (settings_add fw_settings' (ForwardPort port protocol to_port to_addr))
             (seq mark_changed (register_zone zone' fw_settings'))))))
      | Disabled \<Rightarrow>
          bnd (fw_query zone' (ForwardPort port protocol to_port to_addr)) (\<lambda>in_runtime.
          seq (whenM in_runtime
                 (seq (fw_remove zone' (ForwardPort port protocol to_port to_addr)) mark_changed))
          (bnd (settings_query fw_settings' (ForwardPort port protocol to_port to_addr))
            (\<lambda>in_permanent.
           whenM in_permanent
             (seq (settings_remove fw_settings' (ForwardPort port protocol to_port to_addr))
             (seq mark_changed (register_zone zone' fw_settings'))))))))))"

text \<open>Lines 445--454: the commits, and the result.\<close>

definition commit_zone :: "string \<times> nat \<Rightarrow> unit m" where
  "commit_zone za = (case za of (z, a) \<Rightarrow> bnd (config_getZoneByName z) (\<lambda>fw_zone. zone_update fw_zone a))"

definition apply_changes :: "unit m" where
  "apply_changes =
     bnd (gets changed) (\<lambda>c.
       if c then
         bnd (gets changed_zones) (\<lambda>cz.
         seq (for_each commit_zone cz) (exit_json True))
       else exit_json False)"

text \<open>Lines 269--276: the nominal zone. Only a zone given by the caller is looked up.\<close>

definition nominal_zone :: "string option \<Rightarrow> string m" where
  "nominal_zone zone_param =
     bnd fw_getDefaultZone (\<lambda>default_zone.
       (case zone_param of
          Some zone \<Rightarrow>
            bnd (gets rt_zones) (\<lambda>zones.
            seq (whenM (zones zone = None) (fail_json (UnknownZone zone)))
            (bnd (gets perm_zones) (\<lambda>names.
             seq (whenM (names zone = None) (fail_json (UnknownZone zone)))
             (ret zone))))
        | None \<Rightarrow> ret default_zone))"

text \<open>Lines 280--281: \<open>changed = False\<close> and \<open>changed_zones = {}\<close>.\<close>

definition init_changes :: "unit m" where
  "init_changes s = (Ok (), s\<lparr>changed := False, changed_zones := []\<rparr>)"

text \<open>Lines 280--442: the five rule categories in their fixed order.\<close>

definition reconcile ::
  "params \<Rightarrow> (string \<times> string) list \<Rightarrow> forward list \<Rightarrow> string \<Rightarrow> nat \<Rightarrow> unit m" where
  "reconcile p port forward_port zone fw_settings =
     seq init_changes
    (seq (for_each (service_item (p_state p) zone fw_settings) (p_service p))
    (seq (for_each (port_item (p_state p) zone fw_settings) port)
    (seq (interface_block ''trusted'' (check_mode p) (p_state p) zone fw_settings (p_trust p))
    (seq (interface_block ''external'' (check_mode p) (p_state p) zone fw_settings (p_masq p))
         (whenM (0 < length forward_port)
            (for_each (forward_item (p_state p) zone fw_settings) forward_port))))))"

text \<open>
  Lines 267--449, the body of \<open>if HAS_FIREWALLD:\<close> once the daemon is known to be
  connected: the nominal zone and its settings object (lines 269--278), the five rule
  categories, the commits.
\<close>

definition engine :: "params \<Rightarrow> (string \<times> string) list \<Rightarrow> forward list \<Rightarrow> unit m" where
  "engine p port forward_port =
     bnd (nominal_zone (p_zone p)) (\<lambda>zone.
     bnd (config_getZoneByName zone) (\<lambda>fw_zone.
     bnd (zone_getSettings fw_zone) (\<lambda>fw_settings.
     seq (reconcile p port forward_port zone fw_settings)
         apply_changes)))"

text \<open>
  \<open>main\<close>, lines 214--454: the backend check (line 237), the rule strings (lines
  240--251), the connection check (line 264), the engine.
\<close>

definition main :: "params \<Rightarrow> unit m" where
  "main p =
     bnd (gets has_firewalld) (\<lambda>has.
     if \<not> has then fail_json NoBackend
     else
       (case parse_ports (p_port p) of
          Inl e \<Rightarrow> fail_json e
        | Inr port \<Rightarrow>
       (case parse_forward_ports (p_forward_port p) of
          Inl e \<Rightarrow> fail_json e
        | Inr forward_port \<Rightarrow>
            bnd (gets connected) (\<lambda>conn.
            if \<not> conn then fail_json NotRunning
            else engine p port forward_port))))"

section \<open>Running the engine twice\<close>



text \<open>The connection manager is active and knows a connection for the interface.\<close>

definition reassigns :: "string \<Rightarrow> state \<Rightarrow> bool" where
  "reassigns i s =
     (has_firewalld_nm s \<and> nm_imported s
      \<and> (case nm_connection_of s i of NmConnection c \<Rightarrow> True | _ \<Rightarrow> False))"


section \<open>Check mode against a normal run\<close>

text \<open>
  The part of the state that decides the fast path, which no step changes; and the
  condition under which \<open>try_set_zone_of_interface\<close> returns true for an interface.
\<close>

type_synonym nm_view = "bool \<times> bool \<times> (string \<Rightarrow> nm_lookup) \<times> (nat \<Rightarrow> bool)"

definition nm_env :: "state \<Rightarrow> nm_view" where
  "nm_env s = (has_firewalld_nm s, nm_imported s, nm_connection_of s, nm_set_raises s)"



text \<open>
  A step is steady when it only appends to the calls the daemon has received and leaves
  the connection manager's answers alone. Two steps are similar under \<open>Y\<close> when, from
  every state, they give the same result, or \<open>Y\<close> holds of the connection manager and the
  first one ends the process with \<open>changed = True\<close> after a prefix of the calls the second
  one makes.
\<close>

definition steady :: "'a m \<Rightarrow> bool" where
  "steady f = (\<forall>s. prefix (calls s) (calls (snd (f s))) \<and> nm_env (snd (f s)) = nm_env s)"


section \<open>Devices for the proofs\<close>



text \<open>
  A triple \<open>triple P f Q E\<close>: from a state satisfying \<open>P\<close>, if \<open>f\<close> goes on with a
  value then \<open>Q\<close> holds of the value and the state, and if it ends the process through
  \<open>exit_json\<close> then \<open>E\<close> holds of the reported flag and the state. Nothing is
  required of a failure.
\<close>

definition triple :: "(state \<Rightarrow> bool) \<Rightarrow> 'a m \<Rightarrow> ('a \<Rightarrow> state \<Rightarrow> bool) \<Rightarrow> (bool \<Rightarrow> state \<Rightarrow> bool) \<Rightarrow> bool" where
  "triple P f Q E =
     (\<forall>s. P s \<longrightarrow>
        (case f s of
           (Ok x, s') \<Rightarrow> Q x s'
         | (Fail e, s') \<Rightarrow> True
         | (Exit b, s') \<Rightarrow> E b s'))"

section \<open>Fetches and commits of a pass\<close>

text \<open>
  The commits (\<open>update\<close> calls, with the settings stored) and the fetches
  (\<open>getSettings\<close> calls) among the calls the daemon has received.
\<close>

fun commits :: "call list \<Rightarrow> (string \<times> rule set) list" where
  "commits [] = []"
| "commits (c # cs) = (case c of Update z S \<Rightarrow> (z, S) # commits cs | _ \<Rightarrow> commits cs)"

fun fetched :: "call list \<Rightarrow> string list" where
  "fetched [] = []"
| "fetched (c # cs) = (case c of GetSettings z \<Rightarrow> z # fetched cs | _ \<Rightarrow> fetched cs)"


section \<open>Example hosts and requests\<close>

text \<open>
  A host with four zones known to both layers, no rule in any of them, no interface
  assigned, and no connection-manager integration; and the empty request. The examples
  below are updates of these two.
\<close>

definition host :: state where
  "host = \<lparr>has_firewalld = True, has_firewalld_nm = False, nm_imported = False,
     nm_connection_of = (\<lambda>_. NmNone), nm_set_raises = (\<lambda>_. False), nm_zone = (\<lambda>_. []),
     connected = True, default_zone = ''public'',
     rt_zones = [''public'' \<mapsto> {}, ''work'' \<mapsto> {}, ''trusted'' \<mapsto> {}, ''external'' \<mapsto> {}],
     rt_iface = Map.empty,
     perm_zones = [''public'' \<mapsto> {}, ''work'' \<mapsto> {}, ''trusted'' \<mapsto> {}, ''external'' \<mapsto> {}],
     calls = [], heap = (\<lambda>_. {}), next_addr = 0, changed = False, changed_zones = []\<rparr>"

definition request :: params where
  "request = \<lparr>p_service = [], p_port = [], p_trust = [], p_masq = [], p_forward_port = [],
     p_zone = None, p_state = Enabled, check_mode = False\<rparr>"

text \<open>A host whose connection manager knows a connection (number 7) for every interface.\<close>

definition nm_host :: state where
  "nm_host = host\<lparr>has_firewalld_nm := True, nm_imported := True,
     nm_connection_of := (\<lambda>_. NmConnection 7)\<rparr>"

section \<open>Unfolding the model\<close>

lemmas monad_defs = ret_def bnd_def seq_def whenM_def gets_def fail_json_def exit_json_def

lemmas daemon_defs = rz_def fw_query_def fw_add_def fw_remove_def fw_changeZoneOfInterface_def
  fw_getZoneOfInterface_def fw_getDefaultZone_def config_getZoneByName_def zone_getSettings_def
  zone_update_def settings_query_def settings_add_def settings_remove_def
  try_set_zone_of_interface_def

lemmas engine_defs = mark_changed_def register_zone_def service_item_def port_item_def
  zone_settings_def interface_item_def interface_block_def forward_item_def commit_zone_def
  apply_changes_def nominal_zone_def init_changes_def reconcile_def engine_def main_def
  parse_port_def
  parse_forward_port_def forward_fields_def str_is_None_def empty_to_None_def

lemmas example_defs = host_def request_def nm_host_def




section \<open>Triples\<close>






lemma triple_weaken:
  "triple P f Q E \<Longrightarrow> (\<And>s. P' s \<Longrightarrow> P s) \<Longrightarrow> (\<And>x s. Q x s \<Longrightarrow> Q' x s)
    \<Longrightarrow> (\<And>b s. E b s \<Longrightarrow> E' b s) \<Longrightarrow> triple P' f Q' E'"
  unfolding triple_def by (fastforce split: prod.splits res.splits)


section \<open>The loop bodies as instances of one shape\<close>

lemma seq_ret_unit [simp]: "seq f (ret ()) = f"
  by (rule ext) (auto simp: seq_def bnd_def ret_def split: prod.splits res.splits)





section \<open>Steady steps and similar steps\<close>

lemma steadyI: "(\<And>s r s'. f s = (r, s') \<Longrightarrow> prefix (calls s) (calls s') \<and> nm_env s' = nm_env s) \<Longrightarrow> steady f"
  unfolding steady_def by (metis prod.collapse)

lemma steadyD: "steady f \<Longrightarrow> f s = (r, s') \<Longrightarrow> prefix (calls s) (calls s') \<and> nm_env s' = nm_env s"
  unfolding steady_def by (metis snd_conv)

lemma steady_ret [intro!, simp]: "steady (ret x)"
  by (simp add: steady_def ret_def)

lemma steady_gets [intro!, simp]: "steady (gets f)"
  by (simp add: steady_def gets_def)

lemma steady_fail [intro!, simp]: "steady (fail_json e)"
  by (simp add: steady_def fail_json_def)

lemma steady_exit [intro!, simp]: "steady (exit_json b)"
  by (simp add: steady_def exit_json_def)

lemma steady_bnd [intro!]:
  assumes "steady f" and "\<And>x. steady (g x)"
  shows "steady (bnd f g)"
proof (rule steadyI)
  fix s r s'
  assume run: "bnd f g s = (r, s')"
  obtain r1 s1 where f: "f s = (r1, s1)" by (cases "f s")
  from steadyD [OF assms(1) f] have a: "prefix (calls s) (calls s1)" "nm_env s1 = nm_env s"
    by simp_all
  show "prefix (calls s) (calls s') \<and> nm_env s' = nm_env s"
  proof (cases r1)
    case (Ok x)
    with run f have "g x s1 = (r, s')" by (simp add: bnd_def)
    from steadyD [OF assms(2) this] a show ?thesis
      by (auto intro: prefix_order.trans)
  next
    case (Fail e)
    with run f a show ?thesis by (simp add: bnd_def)
  next
    case (Exit b)
    with run f a show ?thesis by (simp add: bnd_def)
  qed
qed

lemma steady_seq [intro!]: "steady f \<Longrightarrow> steady g \<Longrightarrow> steady (seq f g)"
  by (simp add: seq_def steady_bnd)

lemma steady_whenM [intro!]: "steady f \<Longrightarrow> steady (whenM c f)"
  by (simp add: whenM_def)

lemma steady_for_each [intro!]: "(\<And>x. steady (f x)) \<Longrightarrow> steady (for_each f xs)"
  by (induction xs) (auto)

lemma steady_prims [intro!, simp]:
  "steady (fw_query z r)" "steady (fw_add z r)" "steady (fw_remove z r)"
  "steady (fw_changeZoneOfInterface z i)" "steady (fw_getZoneOfInterface i)"
  "steady fw_getDefaultZone" "steady (config_getZoneByName z)" "steady (zone_getSettings z)"
  "steady (zone_update z a)" "steady (settings_query a r)" "steady (settings_add a r)"
  "steady (settings_remove a r)" "steady (try_set_zone_of_interface z i)"
  "steady mark_changed" "steady (register_zone z a)"
  by (auto simp: steady_def nm_env_def daemon_defs mark_changed_def register_zone_def
      split: option.splits rule.splits nm_lookup.splits)

lemma steady_zone_settings [intro!, simp]: "steady (zone_settings z)"
  by (auto simp: zone_settings_def split: option.splits)

lemma steady_service_item [intro!, simp]: "steady (service_item ds z a x)"
  by (auto simp: service_item_def split: intent.splits)

lemma steady_port_item [intro!, simp]: "steady (port_item ds z a x)"
  by (auto simp: port_item_def split: intent.splits prod.splits)

lemma steady_interface_item [intro!, simp]: "steady (interface_item c ds z a x)"
  by (auto simp: interface_item_def split: intent.splits)

lemma steady_interface_block [intro!, simp]: "steady (interface_block fz c ds z a xs)"
  by (auto simp: interface_block_def split: prod.splits)

lemma steady_forward_item [intro!, simp]: "steady (forward_item ds z a x)"
  by (auto simp: forward_item_def split: intent.splits prod.splits)

lemma steady_commit_zone [intro!, simp]: "steady (commit_zone za)"
  by (auto simp: commit_zone_def split: prod.splits)

lemma steady_apply_changes [intro!, simp]: "steady apply_changes"
  by (auto simp: apply_changes_def)

lemma steady_init_changes [intro!, simp]: "steady init_changes"
  by (simp add: steady_def init_changes_def nm_env_def)

lemma steady_nominal_zone [intro!, simp]: "steady (nominal_zone zp)"
  by (auto simp: nominal_zone_def split: option.splits)

lemma steady_reconcile [intro!, simp]: "steady (reconcile p port fps z a)"
  by (auto simp: reconcile_def)






lemma nm_env_try_set:
  "try_set_zone_of_interface z i s = (r, s') \<Longrightarrow> nm_env s' = nm_env s"
  by (auto simp: try_set_zone_of_interface_def nm_env_def split: if_splits nm_lookup.splits)








section \<open>The pass keeps its fetches and commits tidy\<close>

lemma commits_append [simp]: "commits (xs @ ys) = commits xs @ commits ys"
  by (induction xs) (auto split: call.splits)

lemma fetched_append [simp]: "fetched (xs @ ys) = fetched xs @ fetched ys"
  by (induction xs) (auto split: call.splits)


















lemma commits_map_Update [simp]:
  "commits (map (\<lambda>(z, a). Update z (h a)) cz) = map (\<lambda>(z, a). (z, h a)) cz"
  by (induction cz) auto

lemma fetched_map_Update [simp]:
  "fetched (map (\<lambda>(z, a). Update z (h a)) cz) = []"
  by (induction cz) auto





section \<open>The normalizer: results\<close>

lemma split_on_not_Nil: "split_on c s \<noteq> []"
  by (induction s) (auto split: list.splits)

text \<open>
  Claim C7. The claim: a port string splits on a single \<open>/\<close> into (port, protocol),
  and a missing \<open>/\<close> or an empty protocol is a \<open>MalformedRule\<close>. The code accepts an
  empty protocol: the string \<open>80/\<close> parses to the pair (\<open>80\<close>, empty), because the
  guard \<open>_protocol is None\<close> never holds for a string; the same for the port field of a
  forward-port string. A missing \<open>/\<close> is the uncaught \<open>ValueError\<close> of the unpacking,
  and \<open>80/tcp\<close> is the pair (\<open>80\<close>, \<open>tcp\<close>).
\<close>

theorem parse_port_empty_protocol_accepted:
  "parse_port ''80/'' = Inr (''80'', [])
   \<and> parse_forward_port ''8080/;;'' None = Inr ([], ''8080'', [], None, None)
   \<and> parse_port ''80'' = Inl ValueError
   \<and> parse_port ''80/tcp'' = Inr (''80'', ''tcp'')"
  by (simp add: parse_port_def parse_forward_port_def forward_fields_def
      str_is_None_def empty_to_None_def)




section \<open>The change flag\<close>

text \<open>
  Claim C1. The claim: whenever the reconciler mutates the runtime layer it sets the
  changed flag; in particular removing a present service under \<open>disabled\<close> sets it.
  The service loop does not: line 295 removes the service and leaves \<open>changed\<close> alone,
  where the port loop (line 314), the interface loops (lines 353, 392) and the
  forward-port loop (line 434) set it. On a host whose runtime layer has the service
  \<open>http\<close> in the default zone and whose permanent layer does not, disabling \<open>http\<close>
  removes it from the runtime layer and the run ends with \<open>changed = False\<close>; the same
  request for the port \<open>80/tcp\<close> ends with \<open>changed = True\<close>.
\<close>

theorem service_removal_not_reported:
  "main (request\<lparr>p_service := [''http''], p_state := Disabled\<rparr>)
        (host\<lparr>rt_zones := (rt_zones host)(''public'' \<mapsto> {Service ''http''})\<rparr>)
     = (Exit False,
        host\<lparr>rt_zones := (rt_zones host)(''public'' \<mapsto> {}),
             calls := [GetSettings ''public'', RemoveRule ''public'' (Service ''http'')],
             heap := (heap host)(0 := {}), next_addr := 1\<rparr>)
   \<and> fst (main (request\<lparr>p_port := [''80/tcp''], p_state := Disabled\<rparr>)
             (host\<lparr>rt_zones := (rt_zones host)(''public'' \<mapsto> {Port ''80'' ''tcp''})\<rparr>))
     = Exit True"
  by (simp add: monad_defs daemon_defs engine_defs example_defs fun_upd_twist)

section \<open>Forward ports on an interface no zone owns\<close>

text \<open>
  Claim C5. The claim: a forward-port rule with an interface resolves to the zone owning
  the interface, and when no zone owns it the runtime and permanent operations are applied
  to the nominal zone. The code keeps the empty zone name: line 402 assigns it to
  \<open>_zone\<close>, the guard of line 405 selects the nominal zone's settings object, and the
  runtime calls of lines 416--419 and the registration of line 428 are made with the empty
  name. With nominal zone \<open>work\<close>, default zone \<open>public\<close> and the unowned interface
  \<open>eth9\<close>: the runtime rule is added under the empty name (the default zone
  \<open>public\<close> receives it), the settings object of \<open>work\<close> is registered under the empty
  name, the commit looks up a permanent zone of that name and faults, and neither layer of
  \<open>work\<close> has the rule.
\<close>

theorem forward_port_unowned_interface_keeps_empty_zone:
  "main (request\<lparr>p_forward_port := [''eth9;8080/tcp;;''], p_zone := Some ''work''\<rparr>) host
     = (Fail (DaemonFault ''INVALID_ZONE''),
        host\<lparr>rt_zones := (rt_zones host)(''public'' \<mapsto> {ForwardPort ''8080'' ''tcp'' None None}),
             calls := [GetSettings ''work'', AddRule [] (ForwardPort ''8080'' ''tcp'' None None)],
             heap := (heap host)(0 := {ForwardPort ''8080'' ''tcp'' None None}),
             next_addr := 1, changed := True, changed_zones := [([], 0)]\<rparr>)
   \<and> rt_iface host ''eth9'' = None
   \<and> rt_zones host ''work'' = Some {}
   \<and> perm_zones host ''work'' = Some {}"
  by (simp add: monad_defs daemon_defs engine_defs example_defs fun_upd_twist)

section \<open>The fast path\<close>

text \<open>
  Claim C6, as stated, fails: when the connection manager finds a connection and setting
  its zone raises, \<open>try_set_zone_of_interface\<close> does not return false; the exception
  leaves the function.
\<close>

theorem try_set_zone_set_failure_propagates:
  "try_set_zone_of_interface ''trusted'' ''eth1'' (nm_host\<lparr>nm_set_raises := (\<lambda>_. True)\<rparr>)
     = (Fail ConnectionManagerFault, nm_host\<lparr>nm_set_raises := (\<lambda>_. True)\<rparr>)"
  by (simp add: try_set_zone_of_interface_def example_defs)

text \<open>
  Claim C6, amended. A failure of the lookup is swallowed: the function returns false and
  changes nothing; so it does when the integration is absent or inactive. The function
  fails exactly when a connection is found and setting its zone raises, with the
  connection manager's fault and nothing changed; and it never ends the process.
\<close>

theorem try_set_zone_lookup_failure_swallowed:
  "(nm_connection_of s i = NmRaises \<longrightarrow> try_set_zone_of_interface z i s = (Ok False, s))
   \<and> (\<not> (has_firewalld_nm s \<and> nm_imported s) \<longrightarrow> try_set_zone_of_interface z i s = (Ok False, s))
   \<and> ((\<exists>e s'. try_set_zone_of_interface z i s = (Fail e, s'))
        = (has_firewalld_nm s \<and> nm_imported s
           \<and> (\<exists>c. nm_connection_of s i = NmConnection c \<and> nm_set_raises s c)))
   \<and> (try_set_zone_of_interface z i s = (Fail e, s') \<longrightarrow> e = ConnectionManagerFault \<and> s' = s)
   \<and> fst (try_set_zone_of_interface z i s) \<noteq> Exit b"
  by (auto simp: try_set_zone_of_interface_def split: nm_lookup.splits)

theorem try_set_zone_lookup_failure_swallowed_witness:
  "nm_connection_of (nm_host\<lparr>nm_connection_of := (\<lambda>_. NmRaises)\<rparr>) ''eth1'' = NmRaises
   \<and> try_set_zone_of_interface ''trusted'' ''eth1'' (nm_host\<lparr>nm_connection_of := (\<lambda>_. NmRaises)\<rparr>)
       = (Ok False, nm_host\<lparr>nm_connection_of := (\<lambda>_. NmRaises)\<rparr>)
   \<and> \<not> (has_firewalld_nm host \<and> nm_imported host)
   \<and> try_set_zone_of_interface ''trusted'' ''eth1'' host = (Ok False, host)"
proof -
  have a: "nm_connection_of (nm_host\<lparr>nm_connection_of := (\<lambda>_. NmRaises)\<rparr>) ''eth1'' = NmRaises"
    by simp
  have b: "\<not> (has_firewalld_nm host \<and> nm_imported host)"
    by (simp add: host_def)
  from a b
    try_set_zone_lookup_failure_swallowed
      [of "nm_host\<lparr>nm_connection_of := (\<lambda>_. NmRaises)\<rparr>" "''eth1''" "''trusted''"]
    try_set_zone_lookup_failure_swallowed [of host "''eth1''" "''trusted''"]
  show ?thesis by blast
qed

section \<open>Zone validation\<close>

text \<open>
  Claim C4, as stated, fails: only a nominal zone given by the caller is looked up. With
  the zone \<open>trusted\<close> missing from both layers, a request for a service and a trust rule
  adds the service to the runtime layer of the default zone first, and then fails with the
  daemon's fault at \<open>getZoneByName\<close> (line 324), not with \<open>UnknownZone\<close>.
\<close>

theorem trusted_zone_not_validated:
  "main (request\<lparr>p_service := [''http''], p_trust := [''eth1'']\<rparr>)
        (host\<lparr>rt_zones := (rt_zones host)(''trusted'' := None),
              perm_zones := (perm_zones host)(''trusted'' := None)\<rparr>)
     = (Fail (DaemonFault ''INVALID_ZONE''),
        host\<lparr>rt_zones := (rt_zones host)(''trusted'' := None, ''public'' \<mapsto> {Service ''http''}),
             perm_zones := (perm_zones host)(''trusted'' := None),
             calls := [GetSettings ''public'', AddRule ''public'' (Service ''http'')],
             heap := (heap host)(0 := {Service ''http''}),
             next_addr := 1, changed := True, changed_zones := [(''public'', 0)]\<rparr>)"
  by (simp add: monad_defs daemon_defs engine_defs example_defs fun_upd_twist)

text \<open>
  Claim C4, amended. When the caller names a nominal zone that is missing from the runtime
  zone list or from the permanent zone-name list, the run fails with \<open>UnknownZone\<close> and
  the state is the one it started from: no call has reached the daemon. (The rule strings
  are parsed before, so they are well-formed here; the zones \<open>trusted\<close> and
  \<open>external\<close> and the zone of a forward port's interface are not looked up.)
\<close>

theorem unknown_nominal_zone_fails_first:
  assumes "has_firewalld s" and "connected s"
    and "parse_ports (p_port p) = Inr ports"
    and "parse_forward_ports (p_forward_port p) = Inr fps"
    and "p_zone p = Some z"
    and "rt_zones s z = None \<or> perm_zones s z = None"
  shows "main p s = (Fail (UnknownZone z), s)"
  using assms
  by (auto simp: main_def engine_def nominal_zone_def fw_getDefaultZone_def monad_defs)

theorem unknown_nominal_zone_fails_first_witness:
  "main (request\<lparr>p_service := [''http''], p_zone := Some ''dmz''\<rparr>)
        (host\<lparr>rt_zones := (rt_zones host)(''dmz'' \<mapsto> {})\<rparr>)
     = (Fail (UnknownZone ''dmz''), host\<lparr>rt_zones := (rt_zones host)(''dmz'' \<mapsto> {})\<rparr>)
   \<and> main (request\<lparr>p_port := [''80/tcp''], p_zone := Some ''dmz''\<rparr>)
        (host\<lparr>perm_zones := (perm_zones host)(''dmz'' \<mapsto> {})\<rparr>)
     = (Fail (UnknownZone ''dmz''), host\<lparr>perm_zones := (perm_zones host)(''dmz'' \<mapsto> {})\<rparr>)"
proof -
  have a: "main (request\<lparr>p_service := [''http''], p_zone := Some ''dmz''\<rparr>)
        (host\<lparr>rt_zones := (rt_zones host)(''dmz'' \<mapsto> {})\<rparr>)
     = (Fail (UnknownZone ''dmz''), host\<lparr>rt_zones := (rt_zones host)(''dmz'' \<mapsto> {})\<rparr>)"
    by (rule unknown_nominal_zone_fails_first [where ports = "[]" and fps = "[]"])
       (simp_all add: example_defs)
  have b: "main (request\<lparr>p_port := [''80/tcp''], p_zone := Some ''dmz''\<rparr>)
        (host\<lparr>perm_zones := (perm_zones host)(''dmz'' \<mapsto> {})\<rparr>)
     = (Fail (UnknownZone ''dmz''), host\<lparr>perm_zones := (perm_zones host)(''dmz'' \<mapsto> {})\<rparr>)"
    by (rule unknown_nominal_zone_fails_first [where ports = "[(''80'', ''tcp'')]" and fps = "[]"])
       (simp_all add: example_defs parse_port_def str_is_None_def)
  from a b show ?thesis by simp
qed

section \<open>Enabling and then disabling a rule\<close>


lemma reassigns_frame [simp]:
  "reassigns i (s\<lparr>calls := c\<rparr>) = reassigns i s"
  "reassigns i (s\<lparr>heap := h\<rparr>) = reassigns i s"
  "reassigns i (s\<lparr>next_addr := n\<rparr>) = reassigns i s"
  "reassigns i (s\<lparr>changed := b\<rparr>) = reassigns i s"
  "reassigns i (s\<lparr>changed_zones := cz\<rparr>) = reassigns i s"
  "reassigns i (s\<lparr>rt_zones := rt\<rparr>) = reassigns i s"
  "reassigns i (s\<lparr>rt_iface := ri\<rparr>) = reassigns i s"
  "reassigns i (s\<lparr>perm_zones := pz\<rparr>) = reassigns i s"
  by (simp_all add: reassigns_def)









section \<open>Check mode\<close>




section \<open>Fetching and committing permanent settings\<close>





end
